theory Spec2Isabelle
  imports Main "HOL-Library.Word" "HOL-Library.Sublist"
begin

section \<open>Go values shared by both packages\<close>

text \<open>
  Go's \<open>int\<close> is a machine integer: 64 bits wide on the 64-bit platforms, and its
  arithmetic wraps around silently. On a 32-bit platform everything below holds with 32
  in place of 64.
\<close>

type_synonym go_int = "64 word"

text \<open>
  \<open>errors.New(msg)\<close>: an error value carrying its message. A \<open>nil\<close> error is \<open>None\<close>.
\<close>

datatype error = New_error string

section \<open>The transaction pool (package transactionpool)\<close>

subsection \<open>The types of the other packages\<close>

text \<open>
  The pool's fields are typed by packages \<open>crypto\<close>, \<open>consensus\<close>, \<open>modules\<close> and
  \<open>sync\<close>, whose declarations are not among the sources. Hashes and ids are opaque
  keys and the three kinds of objects are opaque values: the pool stores, compares and
  moves them and never looks inside, so natural numbers stand for them.
\<close>

type_synonym Hash = nat
type_synonym SiacoinOutputID = nat
type_synonym FileContractID = nat
type_synonym SiafundOutputID = nat
type_synonym SiacoinOutput = nat
type_synonym FileContract = nat
type_synonym SiafundOutput = nat
type_synonym BlockHeight = nat
type_synonym Gateway = nat
type_synonym chan = nat

text \<open>
  A diff is an addition to or a removal from one output map (spec, glossary: the net
  effect of a block or transaction on the output maps, additions and removals).
\<close>

datatype ('k, 'v) OutputDiff = DiffApply 'k 'v | DiffRevert 'k 'v

type_synonym SiacoinOutputDiff = "(SiacoinOutputID, SiacoinOutput) OutputDiff"
type_synonym FileContractDiff = "(FileContractID, FileContract) OutputDiff"
type_synonym SiafundOutputDiff = "(SiafundOutputID, SiafundOutput) OutputDiff"

text \<open>
  Modelled from the spec: \<open>consensus.Transaction\<close> as the pool sees it (the type is
  declared in package \<open>consensus\<close>). The pool reads a transaction through the ids it
  consumes and the objects it creates, each in one of the three output maps (spec 3:
  inputs referencing output ids; new value-transfer outputs and new contract objects, each
  keyed by an id derived from the creating transaction). Everything else it carries
  (unlock data, proofs, miner fees, arbitrary data, signatures) is the opaque
  \<open>Content\<close>, which only the validity rules look at. \<open>TxID\<close> is the transaction's
  identity, its content hash.
\<close>

record PoolTransaction =
  TxID :: Hash
  SiacoinInputs :: "SiacoinOutputID list"
  SiacoinOutputs :: "(SiacoinOutputID \<times> SiacoinOutput) list"
  FileContractInputs :: "FileContractID list"
  NewFileContracts :: "(FileContractID \<times> FileContract) list"
  SiafundInputs :: "SiafundOutputID list"
  SiafundOutputs :: "(SiafundOutputID \<times> SiafundOutput) list"
  Content :: nat

text \<open>
  Modelled from the spec: \<open>consensus.Block\<close> (spec 6: each block carries the
  output-map diffs the pool rebases against), with the transactions it confirms.
\<close>

record Block =
  Transactions :: "PoolTransaction list"
  SiacoinOutputDiffs :: "SiacoinOutputDiff list"
  FileContractDiffs :: "FileContractDiff list"
  SiafundOutputDiffs :: "SiafundOutputDiff list"

text \<open>
  \<open>sync.New(maxLockTime, callDepth)\<close>: a lock is the two arguments it was made with.
  A \<open>time.Duration\<close> counts nanoseconds.
\<close>

type_synonym Duration = int

datatype RWMutex = sync_New Duration nat

definition Second :: Duration where
  "Second = 1000000000"

subsection \<open>The pool\<close>

text \<open>
  The struct \<open>TransactionPool\<close>, field by field. \<open>consensusSet\<close> is a pointer,
  modelled by the address it holds (\<open>None\<close> is \<open>nil\<close>); \<open>gateway\<close> is an interface
  value (\<open>None\<close> is \<open>nil\<close>). A Go map is a partial function and a \<open>nil\<close> slice is
  the empty list.
\<close>

type_synonym cs_ptr = nat

record TransactionPool =
  consensusSet :: "cs_ptr option"
  gateway :: "Gateway option"
  consensusSetHeight :: BlockHeight
  transactions :: "Hash \<rightharpoonup> PoolTransaction"
  transactionList :: "PoolTransaction list"
  siacoinOutputs :: "SiacoinOutputID \<rightharpoonup> SiacoinOutput"
  fileContracts :: "FileContractID \<rightharpoonup> FileContract"
  siafundOutputs :: "SiafundOutputID \<rightharpoonup> SiafundOutput"
  referenceSiacoinOutputs :: "SiacoinOutputID \<rightharpoonup> SiacoinOutput"
  referenceFileContracts :: "FileContractID \<rightharpoonup> FileContract"
  referenceSiafundOutputs :: "SiafundOutputID \<rightharpoonup> SiafundOutput"
  revertBlocksUpdates :: "Block list list"
  applyBlocksUpdates :: "Block list list"
  unconfirmedTransactions :: "PoolTransaction list list"
  unconfirmedSiacoinDiffs :: "SiacoinOutputDiff list list"
  subscribers :: "chan list"
  mu :: RWMutex

text \<open>
  Modelled from the spec: \<open>consensus.State\<close> and its method \<open>Subscribe\<close> (spec 6: the
  ledger collaborator exposes \<open>Subscribe(listener)\<close>). The state keeps its listeners;
  subscribing adds one.
\<close>

record State =
  listeners :: "TransactionPool list"

definition Subscribe :: "TransactionPool \<Rightarrow> State \<Rightarrow> State" where
  "Subscribe tp cs = cs\<lparr>listeners := listeners cs @ [tp]\<rparr>"

text \<open>
  The pool that \<open>New\<close> constructs: the two collaborators, empty maps, \<open>nil\<close> slices, a
  zero height and a new lock.
\<close>

definition new_pool :: "cs_ptr option \<Rightarrow> Gateway option \<Rightarrow> TransactionPool" where
  "new_pool cs g =
     \<lparr>consensusSet = cs, gateway = g, consensusSetHeight = 0,
      transactions = Map.empty, transactionList = [],
      siacoinOutputs = Map.empty, fileContracts = Map.empty, siafundOutputs = Map.empty,
      referenceSiacoinOutputs = Map.empty, referenceFileContracts = Map.empty,
      referenceSiafundOutputs = Map.empty,
      revertBlocksUpdates = [], applyBlocksUpdates = [],
      unconfirmedTransactions = [], unconfirmedSiacoinDiffs = [],
      subscribers = [], mu = sync_New (1 * Second) 0\<rparr>"

text \<open>
  \<open>New(cs, g)\<close>. The result is the pair \<open>(tp, err)\<close> the Go function returns and the
  consensus states after the call, by address. The first check returns at once, with
  the named results still zero (\<open>tp = nil\<close>). The second check sets \<open>err\<close> and
  does not return: the code falls through to the construction and to \<open>cs.Subscribe(tp)\<close>.
\<close>

definition New ::
  "cs_ptr option \<Rightarrow> Gateway option \<Rightarrow> (cs_ptr \<Rightarrow> State) \<Rightarrow>
   (TransactionPool option \<times> error option) \<times> (cs_ptr \<Rightarrow> State)" where
  "New cs g heap =
     (case cs of
        None \<Rightarrow> ((None, Some (New_error ''transaction pool cannot use a nil state'')), heap)
      | Some c \<Rightarrow>
          (let err = (if g = None
                      then Some (New_error ''transaction pool cannot use a nil gateway'')
                      else None);
               tp = new_pool cs g
           in ((Some tp, err), heap(c := Subscribe tp (heap c)))))"

text \<open>A consensus set nobody has subscribed to yet, at every address.\<close>

definition fresh_states :: "cs_ptr \<Rightarrow> State" where
  "fresh_states = (\<lambda>_. \<lparr>listeners = []\<rparr>)"

subsection \<open>The operations of the pool\<close>

text \<open>
  The source file holds the struct and \<open>New\<close>; the code of the operations is in other
  files of the package. They are modelled from the spec, sections 4.1 to 4.3, on the
  fields of the struct. The lock makes every operation atomic and is not modelled; the
  broadcast to the gateway and the notification of the subscribers leave the pool's state
  as it is and are not modelled either.
\<close>

text \<open>
  Modelled from the spec: the rejection reasons of \<open>Accept\<close> (spec 7: \<open>DoubleSpend\<close>,
  \<open>UnknownInput\<close>, \<open>MalformedTransaction\<close>).
\<close>

datatype rejection = DoubleSpend | UnknownInput | MalformedTransaction

text \<open>
  Modelled from the spec: the rules of \<open>Accept\<close> that the spec names and does not
  define (4.1: every spend condition must be satisfiable by the supplied unlock data; valid
  proof format; overflow-free value arithmetic). They are a parameter: a predicate on the
  current unconfirmed view (the three output maps) and the transaction.
\<close>

type_synonym rules =
  "(SiacoinOutputID \<rightharpoonup> SiacoinOutput) \<Rightarrow> (FileContractID \<rightharpoonup> FileContract) \<Rightarrow>
   (SiafundOutputID \<rightharpoonup> SiafundOutput) \<Rightarrow> PoolTransaction \<Rightarrow> bool"

text \<open>
  Modelled from the spec: the check of the inputs (4.1: every input must reference an id
  present in the current output maps, not in the reference set, not absent). An input that
  is only in the reference set has been consumed by a pending transaction (spec 8: rejected
  as \<open>DoubleSpend\<close> since it is no longer in the unconfirmed maps); an input that is
  nowhere is unknown.
\<close>

fun check_inputs :: "'k list \<Rightarrow> ('k \<rightharpoonup> 'v) \<Rightarrow> ('k \<rightharpoonup> 'v) \<Rightarrow> rejection option" where
  "check_inputs [] m r = None"
| "check_inputs (i # is) m r =
     (if m i \<noteq> None then check_inputs is m r
      else if r i \<noteq> None then Some DoubleSpend
      else Some UnknownInput)"

text \<open>
  Modelled from the spec: the check of the created ids (4.1: output ids created by the
  transaction must not already exist). An id exists in the pool when an output map or
  the reference set holds it.
\<close>

definition ids_are_new :: "('k \<times> 'v) list \<Rightarrow> ('k \<rightharpoonup> 'v) \<Rightarrow> ('k \<rightharpoonup> 'v) \<Rightarrow> bool" where
  "ids_are_new kvs m r = (\<forall>k \<in> fst ` set kvs. m k = None \<and> r k = None)"

text \<open>
  Modelled from the spec: the effect of an accepted transaction on one output map and its
  reference map (4.1: removes consumed outputs from the maps, moving them into the
  reference set; inserts newly created outputs into the maps).
\<close>

fun consume :: "'k list \<Rightarrow> ('k \<rightharpoonup> 'v) \<times> ('k \<rightharpoonup> 'v) \<Rightarrow> ('k \<rightharpoonup> 'v) \<times> ('k \<rightharpoonup> 'v)" where
  "consume [] (m, r) = (m, r)"
| "consume (i # is) (m, r) =
     consume is (m(i := None), (case m i of None \<Rightarrow> r | Some v \<Rightarrow> r(i \<mapsto> v)))"

fun create :: "('k \<times> 'v) list \<Rightarrow> ('k \<rightharpoonup> 'v) \<Rightarrow> ('k \<rightharpoonup> 'v)" where
  "create [] m = m"
| "create ((k, v) # kvs) m = create kvs (m(k \<mapsto> v))"

text \<open>
  Modelled from the spec: the siacoin diffs of a pending transaction, read off the
  reference set, which holds what the transaction consumed (the struct logs siacoin diffs
  only).
\<close>

definition transaction_diffs ::
  "(SiacoinOutputID \<rightharpoonup> SiacoinOutput) \<Rightarrow> PoolTransaction \<Rightarrow> SiacoinOutputDiff list" where
  "transaction_diffs r tx =
     concat (map (\<lambda>i. case r i of None \<Rightarrow> [] | Some v \<Rightarrow> [DiffRevert i v]) (SiacoinInputs tx)) @
     map (\<lambda>(k, v). DiffApply k v) (SiacoinOutputs tx)"

text \<open>
  Modelled from the spec: \<open>UpdateLog.Append\<close> (4.3), on the four parallel slices of the
  struct: one entry is the reverted blocks, the applied blocks, the resulting unconfirmed
  sequence and the diffs.
\<close>

definition Append ::
  "Block list \<Rightarrow> Block list \<Rightarrow> PoolTransaction list \<Rightarrow> SiacoinOutputDiff list \<Rightarrow>
   TransactionPool \<Rightarrow> TransactionPool" where
  "Append rb ab txs ds tp =
     tp\<lparr>revertBlocksUpdates := revertBlocksUpdates tp @ [rb],
        applyBlocksUpdates := applyBlocksUpdates tp @ [ab],
        unconfirmedTransactions := unconfirmedTransactions tp @ [txs],
        unconfirmedSiacoinDiffs := unconfirmedSiacoinDiffs tp @ [ds]\<rparr>"

text \<open>
  Modelled from the spec: the validation of \<open>Accept\<close> (4.1), in the order the spec lists
  the checks: the inputs, the rules, the created ids.
\<close>

definition validate :: "rules \<Rightarrow> PoolTransaction \<Rightarrow> TransactionPool \<Rightarrow> rejection option" where
  "validate rules tx tp =
     (case check_inputs (SiacoinInputs tx) (siacoinOutputs tp) (referenceSiacoinOutputs tp) of
        Some e \<Rightarrow> Some e
      | None \<Rightarrow>
     (case check_inputs (FileContractInputs tx) (fileContracts tp) (referenceFileContracts tp) of
        Some e \<Rightarrow> Some e
      | None \<Rightarrow>
     (case check_inputs (SiafundInputs tx) (siafundOutputs tp) (referenceSiafundOutputs tp) of
        Some e \<Rightarrow> Some e
      | None \<Rightarrow>
     (if \<not> rules (siacoinOutputs tp) (fileContracts tp) (siafundOutputs tp) tx
      then Some MalformedTransaction
      else if ids_are_new (SiacoinOutputs tx) (siacoinOutputs tp) (referenceSiacoinOutputs tp) \<and>
              ids_are_new (NewFileContracts tx) (fileContracts tp) (referenceFileContracts tp) \<and>
              ids_are_new (SiafundOutputs tx) (siafundOutputs tp) (referenceSiafundOutputs tp)
      then None
      else Some MalformedTransaction))))"

text \<open>
  Modelled from the spec: the insertion of a valid transaction (4.1): its consumed
  outputs move to the reference set, its created outputs enter the maps, it is appended to
  the tail of the sequence and recorded in the id map.
\<close>

definition insert_tail :: "PoolTransaction \<Rightarrow> TransactionPool \<Rightarrow> TransactionPool" where
  "insert_tail tx tp =
     (let (sc, rsc) = consume (SiacoinInputs tx) (siacoinOutputs tp, referenceSiacoinOutputs tp);
          (fc, rfc) = consume (FileContractInputs tx) (fileContracts tp, referenceFileContracts tp);
          (sf, rsf) = consume (SiafundInputs tx) (siafundOutputs tp, referenceSiafundOutputs tp)
      in tp\<lparr>transactions := (transactions tp)(TxID tx \<mapsto> tx),
             transactionList := transactionList tp @ [tx],
             siacoinOutputs := create (SiacoinOutputs tx) sc,
             fileContracts := create (NewFileContracts tx) fc,
             siafundOutputs := create (SiafundOutputs tx) sf,
             referenceSiacoinOutputs := rsc,
             referenceFileContracts := rfc,
             referenceSiafundOutputs := rsf\<rparr>)"

text \<open>
  Modelled from the spec: \<open>Accept(tx)\<close> (4.1). A rejection returns its reason and the
  pool as it was; a success inserts the transaction and appends one entry to the update
  log: no blocks, the resulting sequence, the diffs of the transaction.
\<close>

definition Accept ::
  "rules \<Rightarrow> PoolTransaction \<Rightarrow> TransactionPool \<Rightarrow> rejection option \<times> TransactionPool" where
  "Accept rules tx tp =
     (case validate rules tx tp of
        Some e \<Rightarrow> (Some e, tp)
      | None \<Rightarrow>
          (let tp1 = insert_tail tx tp
           in (None, Append [] [] (transactionList tp1)
                 (transaction_diffs (referenceSiacoinOutputs tp1) tx) tp1)))"

text \<open>
  Modelled from the spec: \<open>Undo(tx)\<close> (4.1) on one output map and its reference map:
  an object the transaction had consumed goes back from the reference set into the map
  unless another transaction still present has it among its inputs; the objects the
  transaction had created leave the map.
\<close>

fun reinstate :: "'k list \<Rightarrow> 'k set \<Rightarrow> ('k \<rightharpoonup> 'v) \<times> ('k \<rightharpoonup> 'v) \<Rightarrow> ('k \<rightharpoonup> 'v) \<times> ('k \<rightharpoonup> 'v)" where
  "reinstate [] held (m, r) = (m, r)"
| "reinstate (i # is) held (m, r) =
     (if i \<in> held then reinstate is held (m, r)
      else (case r i of
              None \<Rightarrow> reinstate is held (m, r)
            | Some v \<Rightarrow> reinstate is held (m(i \<mapsto> v), r(i := None))))"

fun uncreate :: "('k \<times> 'v) list \<Rightarrow> ('k \<rightharpoonup> 'v) \<Rightarrow> ('k \<rightharpoonup> 'v)" where
  "uncreate [] m = m"
| "uncreate ((k, v) # kvs) m = uncreate kvs (m(k := None))"

text \<open>
  Modelled from the spec: the removal of a transaction from the sequence by \<open>Undo\<close>.
  \<open>Undo\<close> is called from the tail backward (4.1), so it is the last occurrence that
  leaves.
\<close>

definition remove_last :: "'a \<Rightarrow> 'a list \<Rightarrow> 'a list" where
  "remove_last x xs = rev (remove1 x (rev xs))"

definition Undo :: "PoolTransaction \<Rightarrow> TransactionPool \<Rightarrow> TransactionPool" where
  "Undo tx tp =
     (let rest = remove_last tx (transactionList tp);
          (sc, rsc) = reinstate (SiacoinInputs tx) (\<Union>t \<in> set rest. set (SiacoinInputs t))
                        (siacoinOutputs tp, referenceSiacoinOutputs tp);
          (fc, rfc) = reinstate (FileContractInputs tx) (\<Union>t \<in> set rest. set (FileContractInputs t))
                        (fileContracts tp, referenceFileContracts tp);
          (sf, rsf) = reinstate (SiafundInputs tx) (\<Union>t \<in> set rest. set (SiafundInputs t))
                        (siafundOutputs tp, referenceSiafundOutputs tp)
      in tp\<lparr>transactions := (transactions tp)(TxID tx := None),
             transactionList := rest,
             siacoinOutputs := uncreate (SiacoinOutputs tx) sc,
             fileContracts := uncreate (NewFileContracts tx) fc,
             siafundOutputs := uncreate (SiafundOutputs tx) sf,
             referenceSiacoinOutputs := rsc,
             referenceFileContracts := rfc,
             referenceSiafundOutputs := rsf\<rparr>)"

text \<open>
  Modelled from the spec: the resync protocol (4.2), triggered by one call with the
  reverted blocks (most recent first) and the applied blocks (oldest first).

  Reverting: every transaction of the sequence is undone, from the tail to the head.
\<close>

fun undo_all :: "PoolTransaction list \<Rightarrow> TransactionPool \<Rightarrow> TransactionPool" where
  "undo_all [] tp = tp"
| "undo_all (tx # txs) tp = undo_all txs (Undo tx tp)"

definition revert_unconfirmed :: "TransactionPool \<Rightarrow> TransactionPool" where
  "revert_unconfirmed tp = undo_all (rev (transactionList tp)) tp"

text \<open>
  Modelled from the spec: rebasing (4.2, step 2). The diffs the ledger gives are applied
  to the output maps as they are, those of a reverted block in reverse (last diff first,
  each one inverted), those of an applied block forward.
\<close>

fun apply_diff :: "('k, 'v) OutputDiff \<Rightarrow> ('k \<rightharpoonup> 'v) \<Rightarrow> ('k \<rightharpoonup> 'v)" where
  "apply_diff (DiffApply k v) m = m(k \<mapsto> v)"
| "apply_diff (DiffRevert k v) m = m(k := None)"

fun invert_diff :: "('k, 'v) OutputDiff \<Rightarrow> ('k, 'v) OutputDiff" where
  "invert_diff (DiffApply k v) = DiffRevert k v"
| "invert_diff (DiffRevert k v) = DiffApply k v"

fun apply_diffs :: "('k, 'v) OutputDiff list \<Rightarrow> ('k \<rightharpoonup> 'v) \<Rightarrow> ('k \<rightharpoonup> 'v)" where
  "apply_diffs [] m = m"
| "apply_diffs (d # ds) m = apply_diffs ds (apply_diff d m)"

definition apply_block :: "Block \<Rightarrow> TransactionPool \<Rightarrow> TransactionPool" where
  "apply_block b tp =
     tp\<lparr>siacoinOutputs := apply_diffs (SiacoinOutputDiffs b) (siacoinOutputs tp),
        fileContracts := apply_diffs (FileContractDiffs b) (fileContracts tp),
        siafundOutputs := apply_diffs (SiafundOutputDiffs b) (siafundOutputs tp)\<rparr>"

definition revert_block :: "Block \<Rightarrow> TransactionPool \<Rightarrow> TransactionPool" where
  "revert_block b tp =
     tp\<lparr>siacoinOutputs :=
          apply_diffs (map invert_diff (rev (SiacoinOutputDiffs b))) (siacoinOutputs tp),
        fileContracts :=
          apply_diffs (map invert_diff (rev (FileContractDiffs b))) (fileContracts tp),
        siafundOutputs :=
          apply_diffs (map invert_diff (rev (SiafundOutputDiffs b))) (siafundOutputs tp)\<rparr>"

fun rebase :: "Block list \<Rightarrow> Block list \<Rightarrow> TransactionPool \<Rightarrow> TransactionPool" where
  "rebase [] [] tp = tp"
| "rebase [] (b # bs) tp = rebase [] bs (apply_block b tp)"
| "rebase (b # bs) ab tp = rebase bs ab (revert_block b tp)"

text \<open>
  Modelled from the spec: readding (4.2, step 3). Each transaction is validated against
  the current state as in \<open>Accept\<close> and inserted at the tail, or dropped when the
  validation fails.
\<close>

definition readd :: "rules \<Rightarrow> PoolTransaction \<Rightarrow> TransactionPool \<Rightarrow> TransactionPool" where
  "readd rules tx tp = (if validate rules tx tp = None then insert_tail tx tp else tp)"

fun readd_all :: "rules \<Rightarrow> PoolTransaction list \<Rightarrow> TransactionPool \<Rightarrow> TransactionPool" where
  "readd_all rules [] tp = tp"
| "readd_all rules (tx # txs) tp = readd_all rules txs (readd rules tx tp)"

text \<open>
  Modelled from the spec: the whole protocol (4.2, steps 1 to 4), the pool's reaction to
  a change of the ledger. The transactions of the reverted blocks are readded first, the
  oldest reverted block first: they come to stand at the head of the sequence, before
  the transactions that were pending, which are readded after them in their old order.
  One entry is appended to the update log: the reverted blocks, the applied blocks, the
  final sequence and its diffs.
\<close>

definition OnLedgerChange ::
  "rules \<Rightarrow> Block list \<Rightarrow> Block list \<Rightarrow> TransactionPool \<Rightarrow> TransactionPool" where
  "OnLedgerChange rules revertedBlocks appliedBlocks tp =
     (let snapshot = transactionList tp;
          tp1 = revert_unconfirmed tp;
          tp2 = rebase revertedBlocks appliedBlocks tp1;
          tp3 = readd_all rules (concat (map Transactions (rev revertedBlocks))) tp2;
          tp4 = readd_all rules snapshot tp3
      in Append revertedBlocks appliedBlocks (transactionList tp4)
           (concat (map (transaction_diffs (referenceSiacoinOutputs tp4)) (transactionList tp4)))
           tp4)"

text \<open>
  The states of a pool: the pool \<open>New\<close> constructs, and every state an \<open>Accept\<close> or a
  resync leads to from one of them.
\<close>

inductive reachable :: "rules \<Rightarrow> TransactionPool \<Rightarrow> bool" for rules :: rules where
  reachable_New: "reachable rules (new_pool cs g)"
| reachable_Accept: "reachable rules tp \<Longrightarrow> reachable rules (snd (Accept rules tx tp))"
| reachable_OnLedgerChange:
    "reachable rules tp \<Longrightarrow> reachable rules (OnLedgerChange rules revertedBlocks appliedBlocks tp)"

text \<open>
  A transaction consumes an output of another one when one of its inputs is the id of an
  object the other creates, in any of the three maps. The dependency order of a
  sequence: no transaction consumes an output of itself or of a later one.
\<close>

definition consumes_output_of :: "PoolTransaction \<Rightarrow> PoolTransaction \<Rightarrow> bool" where
  "consumes_output_of t2 t1 =
     ((\<exists>i \<in> set (SiacoinInputs t2). i \<in> fst ` set (SiacoinOutputs t1)) \<or>
      (\<exists>i \<in> set (FileContractInputs t2). i \<in> fst ` set (NewFileContracts t1)) \<or>
      (\<exists>i \<in> set (SiafundInputs t2). i \<in> fst ` set (SiafundOutputs t1)))"

fun dependency_order :: "PoolTransaction list \<Rightarrow> bool" where
  "dependency_order [] = True"
| "dependency_order (t # ts) =
     ((\<forall>u \<in> set (t # ts). \<not> consumes_output_of t u) \<and> dependency_order ts)"

text \<open>
  Two facts that hold of every state of a pool and carry the dependency order: the
  reference set holds every input of every pending transaction, and the sequence is in
  dependency order.
\<close>

definition inputs_held :: "TransactionPool \<Rightarrow> bool" where
  "inputs_held tp =
     (\<forall>t \<in> set (transactionList tp).
        set (SiacoinInputs t) \<subseteq> dom (referenceSiacoinOutputs tp) \<and>
        set (FileContractInputs t) \<subseteq> dom (referenceFileContracts tp) \<and>
        set (SiafundInputs t) \<subseteq> dom (referenceSiafundOutputs tp))"

definition ordered :: "TransactionPool \<Rightarrow> bool" where
  "ordered tp = (inputs_held tp \<and> dependency_order (transactionList tp))"

text \<open>
  A concrete run, after the scenario of the spec (section 8): a block brings the confirmed
  output 1 of value 10; \<open>tx_1\<close> spends it and creates output 2; \<open>tx_2\<close> spends
  output 2 and creates output 3. The rules left open accept everything here.
\<close>

definition any_rules :: rules where
  "any_rules = (\<lambda>sc fc sf tx. True)"

definition block_1 :: Block where
  "block_1 = \<lparr>Transactions = [], SiacoinOutputDiffs = [DiffApply 1 10],
     FileContractDiffs = [], SiafundOutputDiffs = []\<rparr>"

definition tx_1 :: PoolTransaction where
  "tx_1 = \<lparr>TxID = 101, SiacoinInputs = [1], SiacoinOutputs = [(2, 10)],
     FileContractInputs = [], NewFileContracts = [],
     SiafundInputs = [], SiafundOutputs = [], Content = 0\<rparr>"

definition tx_2 :: PoolTransaction where
  "tx_2 = \<lparr>TxID = 102, SiacoinInputs = [2], SiacoinOutputs = [(3, 10)],
     FileContractInputs = [], NewFileContracts = [],
     SiafundInputs = [], SiafundOutputs = [], Content = 0\<rparr>"

definition example_pool :: TransactionPool where
  "example_pool =
     snd (Accept any_rules tx_2
       (snd (Accept any_rules tx_1
         (OnLedgerChange any_rules [] [block_1] (new_pool (Some 0) (Some 0))))))"

section \<open>The wallet's open transactions (sia/wallet/transactions.go)\<close>

subsection \<open>Slices\<close>

text \<open>
  A Go slice is a header (a pointer into a backing array, a length and a capacity), and
  copying a struct copies the headers of its slices, not the arrays. The pointer is the
  address of the array and an index into it. The arrays of one element type live in a
  heap: the arrays by address, the first address not yet allocated, and the zero value of
  the element type, which fills a new array.
\<close>

record slice =
  Array :: nat
  Index :: nat
  Len :: nat
  Cap :: nat

definition nil_slice :: slice where
  "nil_slice = \<lparr>Array = 0, Index = 0, Len = 0, Cap = 0\<rparr>"

record 'a heap =
  cells :: "nat \<Rightarrow> 'a list"
  next_free :: nat
  zero_value :: 'a






subsection \<open>The wallet\<close>

text \<open>
  \<open>consensus.Transaction\<close> as the wallet uses it: seven slices, each a header. The
  element types (\<open>Currency\<close>, \<open>Output\<close>, \<open>FileContract\<close>, \<open>StorageProof\<close>) are declared
  in another package; the wallet operations below only append values of these types, so
  they are type parameters of the memory.
\<close>

record Transaction =
  ArbitraryData :: slice
  Inputs :: slice
  MinerFees :: slice
  Outputs :: slice
  FileContracts :: slice
  StorageProofs :: slice
  Signatures :: slice

text \<open>
  \<open>openTransaction\<close>: the transaction under construction (the wallet owns the copy of
  the struct it points to, made by \<open>RegisterTransaction\<close>; the backing arrays are those
  of the caller's transaction) and the indices of the inputs the wallet added.
\<close>

record openTransaction =
  transaction :: Transaction
  inputs :: slice

text \<open>
  The fields of \<open>BasicWallet\<close> that transactions.go reads and writes. The map
  \<open>transactions\<close> only ever holds the non-nil pointers that \<open>RegisterTransaction\<close>
  stores, so a key maps to an open transaction or is absent; the map itself is allocated
  (\<open>Reset\<close> makes a new one). \<open>spendableAddresses\<close> is not touched by the
  operations modelled here and stays abstract.
\<close>

record 'a BasicWallet =
  spentCounter :: go_int
  transactionCounter :: go_int
  transactions :: "string \<rightharpoonup> openTransaction"
  spendableAddresses :: 'a


subsection \<open>strconv.Itoa\<close>

text \<open>
  The decimal representation of a Go \<open>int\<close>, as \<open>strconv.Itoa\<close> of the standard
  library prints it: the digits of the absolute value without leading zeros, after a
  minus sign when the value is negative.
\<close>

definition digit_char :: "nat \<Rightarrow> char" where
  "digit_char d = char_of (48 + d)"

fun FormatUint :: "nat \<Rightarrow> string" where
  "FormatUint n =
     (if n < 10 then [digit_char n] else FormatUint (n div 10) @ [digit_char (n mod 10)])"

declare FormatUint.simps [simp del]

definition FormatInt :: "int \<Rightarrow> string" where
  "FormatInt i = (if i < 0 then CHR ''-'' # FormatUint (nat (- i)) else FormatUint (nat i))"

definition Itoa :: "go_int \<Rightarrow> string" where
  "Itoa i = FormatInt (sint i)"

text \<open>Reading a decimal string back, to state what \<open>Itoa\<close> prints.\<close>

definition digit_val :: "char \<Rightarrow> nat" where
  "digit_val c = of_char c - 48"

definition ParseUint :: "string \<Rightarrow> nat" where
  "ParseUint s = foldl (\<lambda>acc c. 10 * acc + digit_val c) 0 s"

definition ParseInt :: "string \<Rightarrow> int" where
  "ParseInt s =
     (case s of
        [] \<Rightarrow> 0
      | c # cs \<Rightarrow> if c = CHR ''-'' then - int (ParseUint cs) else int (ParseUint s))"

subsection \<open>The operations\<close>

text \<open>
  Every operation takes the wallet (and the memory, when it appends) and returns what the
  Go method returns together with the wallet (and the memory) after the call. The mutex
  (\<open>w.Lock()\<close>, \<open>defer w.Unlock()\<close>) makes each call atomic and has no other effect
  on the result.
\<close>

definition Reset :: "'a BasicWallet \<Rightarrow> error option \<times> 'a BasicWallet" where
  "Reset w = (None, w\<lparr>spentCounter := spentCounter w + 1, transactions := Map.empty\<rparr>)"

text \<open>
  \<open>RegisterTransaction\<close> takes the transaction by value: the open transaction holds a copy
  of the seven headers. \<open>new(openTransaction)\<close> has a \<open>nil\<close> slice of recorded inputs.
\<close>

definition RegisterTransaction ::
  "Transaction \<Rightarrow> 'a BasicWallet \<Rightarrow> (string \<times> error option) \<times> 'a BasicWallet" where
  "RegisterTransaction t w =
     (let tid = Itoa (transactionCounter w);
          w1 = w\<lparr>transactionCounter := transactionCounter w + 1\<rparr>;
          w2 = w1\<lparr>transactions := (transactions w1)(tid \<mapsto> \<lparr>transaction = t, inputs = nil_slice\<rparr>)\<rparr>
      in ((tid, None), w2))"






text \<open>
  A sequence of \<open>RegisterTransaction\<close> calls on one wallet: the ids returned, in call
  order, and the wallet after the last call.
\<close>

fun RegisterAll :: "Transaction list \<Rightarrow> 'a BasicWallet \<Rightarrow> string list \<times> 'a BasicWallet" where
  "RegisterAll [] w = ([], w)"
| "RegisterAll (t # ts) w =
     (let ((tid, err), w1) = RegisterTransaction t w;
          (ids, w2) = RegisterAll ts w1
      in (tid # ids, w2))"

text \<open>Concrete inputs for the examples below.\<close>

definition empty_tx :: Transaction where
  "empty_tx = \<lparr>ArbitraryData = nil_slice, Inputs = nil_slice, MinerFees = nil_slice,
     Outputs = nil_slice, FileContracts = nil_slice, StorageProofs = nil_slice,
     Signatures = nil_slice\<rparr>"

definition new_wallet :: "unit BasicWallet" where
  "new_wallet = \<lparr>spentCounter = 0, transactionCounter = 0, transactions = Map.empty,
     spendableAddresses = ()\<rparr>"









section \<open>Properties of the wallet operations\<close>

subsection \<open>What \<open>Itoa\<close> prints\<close>

lemma digit_val_digit_char: "d < 10 \<Longrightarrow> digit_val (digit_char d) = d"
  by (simp add: digit_val_def digit_char_def)

lemma digit_char_not_minus: "d < 10 \<Longrightarrow> digit_char d \<noteq> CHR ''-''"
proof
  assume d: "d < 10" and e: "digit_char d = CHR ''-''"
  from e have "(of_char (digit_char d) :: nat) = of_char (CHR ''-'')" by simp
  with d show False by (simp add: digit_char_def)
qed

lemma ParseUint_snoc: "ParseUint (s @ [c]) = 10 * ParseUint s + digit_val c"
  by (simp add: ParseUint_def)

lemma ParseUint_FormatUint: "ParseUint (FormatUint n) = n"
proof (induction n rule: FormatUint.induct)
  case (1 n)
  show ?case
  proof (cases "n < 10")
    case True
    then show ?thesis by (subst FormatUint.simps) (simp add: ParseUint_def digit_val_digit_char)
  next
    case False
    have "ParseUint (FormatUint n) = ParseUint (FormatUint (n div 10) @ [digit_char (n mod 10)])"
      using False by (subst FormatUint.simps) simp
    also have "\<dots> = 10 * (n div 10) + n mod 10"
      using 1 False by (simp add: ParseUint_snoc digit_val_digit_char)
    finally show ?thesis by simp
  qed
qed

lemma FormatUint_hd: "\<exists>c cs. FormatUint n = c # cs \<and> c \<noteq> CHR ''-''"
proof (induction n rule: FormatUint.induct)
  case (1 n)
  show ?case
  proof (cases "n < 10")
    case True
    then show ?thesis by (subst FormatUint.simps) (simp add: digit_char_not_minus)
  next
    case False
    with 1 obtain c cs where "FormatUint (n div 10) = c # cs" "c \<noteq> CHR ''-''" by blast
    then show ?thesis using False by (subst FormatUint.simps) simp
  qed
qed

lemma ParseInt_FormatInt: "ParseInt (FormatInt i) = i"
proof (cases "i < 0")
  case True
  then show ?thesis by (simp add: ParseInt_def FormatInt_def ParseUint_FormatUint)
next
  case False
  obtain c cs where f: "FormatUint (nat i) = c # cs" "c \<noteq> CHR ''-''"
    using FormatUint_hd by blast
  have "ParseUint (c # cs) = nat i" using ParseUint_FormatUint [of "nat i"] f by simp
  then show ?thesis using False f by (simp add: ParseInt_def FormatInt_def)
qed

lemma ParseInt_Itoa: "ParseInt (Itoa c) = sint c"
  by (simp add: Itoa_def ParseInt_FormatInt)

lemma Itoa_inj: "Itoa a = Itoa b \<Longrightarrow> a = b"
proof -
  assume "Itoa a = Itoa b"
  then have "ParseInt (Itoa a) = ParseInt (Itoa b)" by simp
  then have "sint a = sint b" by (simp add: ParseInt_Itoa)
  then show "a = b" by (rule signed_word_eqI)
qed

lemma RegisterTransaction_counter:
  "transactionCounter (snd (RegisterTransaction t w)) = transactionCounter w + 1"
  by (simp add: RegisterTransaction_def Let_def)

lemma RegisterAll_ids:
  "fst (RegisterAll ts w) = map (\<lambda>k. Itoa (transactionCounter w + of_nat k)) [0..<length ts]"
proof (induction ts arbitrary: w)
  case Nil
  show ?case by simp
next
  case (Cons t ts)
  have "fst (RegisterAll (t # ts) w) =
        Itoa (transactionCounter w) # fst (RegisterAll ts (snd (RegisterTransaction t w)))"
    by (simp add: RegisterTransaction_def Let_def split: prod.splits)
  also have "\<dots> = Itoa (transactionCounter w) #
        map (\<lambda>k. Itoa (transactionCounter w + 1 + of_nat k)) [0..<length ts]"
    by (simp add: Cons.IH RegisterTransaction_counter)
  also have "\<dots> = map (\<lambda>k. Itoa (transactionCounter w + of_nat k)) [0..<length (t # ts)]"
    by (simp add: upt_conv_Cons map_Suc_upt [symmetric] add.assoc del: upt_Suc)
  finally show ?case .
qed

lemma of_nat_go_int_inj:
  "i < 2 ^ 64 \<Longrightarrow> j < 2 ^ 64 \<Longrightarrow> (of_nat i :: go_int) = of_nat j \<Longrightarrow> i = j"
proof -
  assume i: "i < 2 ^ 64" and j: "j < 2 ^ 64" and e: "(of_nat i :: go_int) = of_nat j"
  from e have "unat (of_nat i :: go_int) = unat (of_nat j :: go_int)" by simp
  with i j show "i = j" by (simp add: unat_of_nat)
qed

lemma RegisterAll_distinct:
  assumes "length ts \<le> 2 ^ 64"
  shows "distinct (fst (RegisterAll ts w))"
proof -
  have "inj_on (\<lambda>k. Itoa (transactionCounter w + of_nat k)) (set [0..<length ts])"
  proof (rule inj_onI)
    fix i j assume i: "i \<in> set [0..<length ts]" and j: "j \<in> set [0..<length ts]"
      and e: "Itoa (transactionCounter w + of_nat i) = Itoa (transactionCounter w + of_nat j)"
    from e have "(of_nat i :: go_int) = of_nat j" by (auto dest: Itoa_inj)
    moreover from i j assms have "i < 2 ^ 64" "j < 2 ^ 64" by auto
    ultimately show "i = j" by (rule_tac of_nat_go_int_inj)
  qed
  then show ?thesis by (simp add: RegisterAll_ids distinct_map)
qed


lemma RegisterAll_repeats:
  assumes "2 ^ 64 < length ts"
  shows "\<not> distinct (fst (RegisterAll ts w))"
proof
  assume d: "distinct (fst (RegisterAll ts w))"
  let ?ids = "fst (RegisterAll ts w)"
  have len: "length ?ids = length ts" by (simp add: RegisterAll_ids)
  have z: "(of_nat (2 ^ 64) :: go_int) = 0" by simp
  have p: "0 < length ts" using assms by (cases ts) simp_all
  have "?ids ! 0 = Itoa (transactionCounter w)"
    using p by (simp add: RegisterAll_ids)
  moreover have "?ids ! (2 ^ 64) = Itoa (transactionCounter w + of_nat (2 ^ 64))"
    unfolding RegisterAll_ids using assms by (subst nth_map) simp_all
  then have "?ids ! (2 ^ 64) = Itoa (transactionCounter w)"
    by (simp only: z add_0_right)
  ultimately have e: "?ids ! 0 = ?ids ! (2 ^ 64)" by simp
  have i: "0 < length ?ids" and j: "2 ^ 64 < length ?ids"
    using p assms by (simp_all only: len)
  have "(0::nat) = 2 ^ 64"
    using nth_eq_iff_index_eq [OF d i j] e by (rule iffD1)
  then show False by simp
qed

subsection \<open>What \<open>append\<close> does\<close>







subsection \<open>Adding components to an open transaction\<close>











subsection \<open>Registering transactions\<close>

text \<open>
  C10, as amended. \<open>RegisterTransaction\<close> never returns an error. It returns the decimal
  string of the wallet's transaction counter (reading the string back gives the counter's
  signed value), increments the counter by one (a 64-bit Go \<open>int\<close>, so the increment
  wraps around) and stores under the returned id a fresh open transaction holding the
  supplied transaction and no recorded inputs; no other field changes. The ids returned by
  a sequence of at most \<open>2 ^ 64\<close> calls on one wallet are pairwise distinct.
\<close>

theorem RegisterTransaction_spec:
  "fst (RegisterTransaction t w) = (Itoa (transactionCounter w), None) \<and>
   ParseInt (Itoa (transactionCounter w)) = sint (transactionCounter w) \<and>
   snd (RegisterTransaction t w) =
     w\<lparr>transactionCounter := transactionCounter w + 1,
       transactions := (transactions w)(Itoa (transactionCounter w) \<mapsto>
         \<lparr>transaction = t, inputs = nil_slice\<rparr>)\<rparr> \<and>
   (length ts \<le> 2 ^ 64 \<longrightarrow> distinct (fst (RegisterAll ts w)))"
  by (simp add: RegisterTransaction_def Let_def ParseInt_Itoa RegisterAll_distinct)

text \<open>Two registrations on a new wallet return the ids \<open>''0''\<close> and \<open>''1''\<close>.\<close>

theorem RegisterTransaction_spec_witness:
  "length [empty_tx, empty_tx] \<le> 2 ^ 64 \<and>
   distinct (fst (RegisterAll [empty_tx, empty_tx] new_wallet)) \<and>
   fst (RegisterAll [empty_tx, empty_tx] new_wallet) = [''0'', ''1'']"
proof -
  have l: "length [empty_tx, empty_tx] \<le> 2 ^ 64" by simp
  have d: "distinct (fst (RegisterAll [empty_tx, empty_tx] new_wallet))"
    using RegisterTransaction_spec [of empty_tx new_wallet "[empty_tx, empty_tx]"] l by blast
  have "fst (RegisterAll [empty_tx, empty_tx] new_wallet) = [''0'', ''1'']"
    by code_simp
  with l d show ?thesis by blast
qed

text \<open>
  C10 as stated fails for longer sequences: the counter has \<open>2 ^ 64\<close> values, so the
  registration number \<open>2 ^ 64 + 1\<close> on a new wallet returns the id \<open>''0''\<close> of the first
  one again.
\<close>

theorem RegisterTransaction_ids_repeat:
  "\<not> distinct (fst (RegisterAll (replicate (2 ^ 64 + 1) empty_tx) new_wallet))"
proof (rule RegisterAll_repeats)
  have "(2::nat) ^ 64 < 2 ^ 64 + 1" by simp
  then show "2 ^ 64 < length (replicate (2 ^ 64 + 1) empty_tx)"
    by (simp only: length_replicate)
qed

section \<open>Properties of the transaction pool\<close>

subsection \<open>Construction\<close>

text \<open>
  C1. \<open>New\<close> with a consensus set and a \<open>nil\<close> gateway: the call returns the error
  \<open>transaction pool cannot use a nil gateway\<close> together with a pool that is not \<open>nil\<close>,
  and the consensus set has that pool (the one whose gateway is \<open>nil\<close>) as a listener.
  The check of the gateway sets the error and, unlike the check of the consensus set
  before it, does not return.
\<close>

theorem New_nil_gateway_subscribes:
  "fst (fst (New (Some 0) None fresh_states)) \<noteq> None \<and>
   snd (fst (New (Some 0) None fresh_states)) =
     Some (New_error ''transaction pool cannot use a nil gateway'') \<and>
   map gateway (listeners (snd (New (Some 0) None fresh_states) 0)) = [None]"
  by (simp add: New_def new_pool_def fresh_states_def Subscribe_def Let_def)

text \<open>The check of the consensus set, which comes first, does return: no pool, nothing subscribed.\<close>

lemma New_nil_state:
  "New None g heap = ((None, Some (New_error ''transaction pool cannot use a nil state'')), heap)"
  by (simp add: New_def)

subsection \<open>The dependency order of the unconfirmed sequence\<close>

text \<open>
  What follows is about the operations as the spec describes them (their code is in files
  that are not among the sources), on the struct of the source. A transaction passes the
  validation only if its inputs are in the output maps and the ids it creates are
  nowhere in the pool. Its inputs then move to the reference set and stay there while it
  is pending, so a later transaction cannot create what an earlier one consumes.
\<close>

lemma check_inputs_None: "check_inputs is m r = None \<longleftrightarrow> set is \<subseteq> dom m"
  by (induction "is") auto

lemma dom_snd_consume: "dom (snd (consume is (m, r))) = dom r \<union> (set is \<inter> dom m)"
proof (induction "is" arbitrary: m r)
  case Nil
  show ?case by simp
next
  case (Cons i "is")
  show ?case
  proof (cases "m i")
    case None
    then show ?thesis by (auto simp: Cons.IH split: if_splits)
  next
    case (Some v)
    then show ?thesis by (auto simp: Cons.IH split: if_splits)
  qed
qed

lemma validate_None_inputs:
  assumes "validate rules tx tp = None"
  shows "set (SiacoinInputs tx) \<subseteq> dom (siacoinOutputs tp)"
    and "set (FileContractInputs tx) \<subseteq> dom (fileContracts tp)"
    and "set (SiafundInputs tx) \<subseteq> dom (siafundOutputs tp)"
proof -
  from assms have
    "check_inputs (SiacoinInputs tx) (siacoinOutputs tp) (referenceSiacoinOutputs tp) = None"
    "check_inputs (FileContractInputs tx) (fileContracts tp) (referenceFileContracts tp) = None"
    "check_inputs (SiafundInputs tx) (siafundOutputs tp) (referenceSiafundOutputs tp) = None"
    by (simp_all add: validate_def split: option.splits)
  then show "set (SiacoinInputs tx) \<subseteq> dom (siacoinOutputs tp)"
    and "set (FileContractInputs tx) \<subseteq> dom (fileContracts tp)"
    and "set (SiafundInputs tx) \<subseteq> dom (siafundOutputs tp)"
    by (simp_all only: check_inputs_None)
qed

lemma validate_None_new:
  assumes "validate rules tx tp = None"
  shows "ids_are_new (SiacoinOutputs tx) (siacoinOutputs tp) (referenceSiacoinOutputs tp)"
    and "ids_are_new (NewFileContracts tx) (fileContracts tp) (referenceFileContracts tp)"
    and "ids_are_new (SiafundOutputs tx) (siafundOutputs tp) (referenceSiafundOutputs tp)"
  using assms
  by (simp_all add: validate_def split: option.splits if_splits)

lemma insert_tail_list: "transactionList (insert_tail tx tp) = transactionList tp @ [tx]"
  by (simp add: insert_tail_def Let_def split: prod.splits)

lemma insert_tail_refs:
  "referenceSiacoinOutputs (insert_tail tx tp) =
     snd (consume (SiacoinInputs tx) (siacoinOutputs tp, referenceSiacoinOutputs tp))"
  "referenceFileContracts (insert_tail tx tp) =
     snd (consume (FileContractInputs tx) (fileContracts tp, referenceFileContracts tp))"
  "referenceSiafundOutputs (insert_tail tx tp) =
     snd (consume (SiafundInputs tx) (siafundOutputs tp, referenceSiafundOutputs tp))"
  by (simp_all add: insert_tail_def Let_def split: prod.splits)

lemma dependency_order_snoc:
  "dependency_order (ts @ [x]) \<longleftrightarrow>
     dependency_order ts \<and> (\<forall>t \<in> set ts. \<not> consumes_output_of t x) \<and> \<not> consumes_output_of x x"
  by (induction ts) auto

lemma dependency_order_nth:
  "dependency_order ts \<Longrightarrow> i < length ts \<Longrightarrow> j < length ts \<Longrightarrow>
   consumes_output_of (ts ! j) (ts ! i) \<Longrightarrow> i < j"
proof (induction ts arbitrary: i j)
  case Nil
  then show ?case by simp
next
  case (Cons t ts)
  show ?case
  proof (cases j)
    case 0
    with Cons.prems have "consumes_output_of t ((t # ts) ! i)" by simp
    moreover from Cons.prems have "(t # ts) ! i \<in> set (t # ts)" by (intro nth_mem)
    ultimately show ?thesis using Cons.prems(1) by auto
  next
    case (Suc j')
    show ?thesis
    proof (cases i)
      case 0
      with Suc show ?thesis by simp
    next
      case (Suc i')
      with \<open>j = Suc j'\<close> Cons.prems Cons.IH [of i' j'] show ?thesis by simp
    qed
  qed
qed

lemma held_not_consumes:
  assumes "set ins \<subseteq> dom r" and "ids_are_new kvs m r"
  shows "\<not> (\<exists>i \<in> set ins. i \<in> fst ` set kvs)"
  using assms by (auto simp: ids_are_new_def) 

lemma own_not_consumes:
  assumes "set ins \<subseteq> dom m" and "ids_are_new kvs m r"
  shows "\<not> (\<exists>i \<in> set ins. i \<in> fst ` set kvs)"
  using assms by (auto simp: ids_are_new_def) 

lemma insert_tail_inputs_held:
  assumes v: "validate rules tx tp = None" and h: "inputs_held tp"
  shows "inputs_held (insert_tail tx tp)"
  using h validate_None_inputs [OF v]
  unfolding inputs_held_def insert_tail_list insert_tail_refs dom_snd_consume
  by auto

lemma insert_tail_dependency_order:
  assumes v: "validate rules tx tp = None" and h: "inputs_held tp"
    and d: "dependency_order (transactionList tp)"
  shows "dependency_order (transactionList (insert_tail tx tp))"
proof -
  note n = validate_None_new [OF v] and i = validate_None_inputs [OF v]
  have own: "\<not> consumes_output_of tx tx"
  proof -
    note a = own_not_consumes [OF i(1) n(1)]
    note b = own_not_consumes [OF i(2) n(2)]
    note c = own_not_consumes [OF i(3) n(3)]
    show ?thesis by (simp only: consumes_output_of_def a b c simp_thms)
  qed
  have earlier: "\<not> consumes_output_of t tx" if t: "t \<in> set (transactionList tp)" for t
  proof -
    from h t have
      h1: "set (SiacoinInputs t) \<subseteq> dom (referenceSiacoinOutputs tp)" and
      h2: "set (FileContractInputs t) \<subseteq> dom (referenceFileContracts tp)" and
      h3: "set (SiafundInputs t) \<subseteq> dom (referenceSiafundOutputs tp)"
      by (simp_all add: inputs_held_def)
    note a = held_not_consumes [OF h1 n(1)]
    note b = held_not_consumes [OF h2 n(2)]
    note c = held_not_consumes [OF h3 n(3)]
    show ?thesis by (simp only: consumes_output_of_def a b c simp_thms)
  qed
  from own earlier d show ?thesis
    by (simp add: insert_tail_list dependency_order_snoc)
qed

lemma readd_ordered: "ordered tp \<Longrightarrow> ordered (readd rules tx tp)"
  by (simp add: readd_def ordered_def insert_tail_inputs_held insert_tail_dependency_order)

lemma readd_all_ordered: "ordered tp \<Longrightarrow> ordered (readd_all rules txs tp)"
  by (induction txs arbitrary: tp) (simp_all add: readd_ordered)

lemma remove_last_snoc: "remove_last x (xs @ [x]) = xs"
  by (simp add: remove_last_def)

lemma Undo_list: "transactionList (Undo tx tp) = remove_last tx (transactionList tp)"
  by (simp add: Undo_def Let_def split: prod.splits)

lemma undo_all_list:
  "transactionList tp = xs \<Longrightarrow> transactionList (undo_all (rev xs) tp) = []"
proof (induction xs arbitrary: tp rule: rev_induct)
  case Nil
  then show ?case by simp
next
  case (snoc x xs)
  have "transactionList (Undo x tp) = xs"
    by (simp add: Undo_list snoc.prems remove_last_snoc)
  then show ?case by (simp add: snoc.IH)
qed

lemma revert_unconfirmed_list: "transactionList (revert_unconfirmed tp) = []"
  by (simp add: revert_unconfirmed_def undo_all_list)

lemma rebase_list: "transactionList (rebase rb ab tp) = transactionList tp"
  by (induction rb ab tp rule: rebase.induct) (simp_all add: apply_block_def revert_block_def)

lemma empty_ordered: "transactionList tp = [] \<Longrightarrow> ordered tp"
  by (simp add: ordered_def inputs_held_def)

lemma Append_ordered: "ordered (Append rb ab txs ds tp) = ordered tp"
  by (simp add: Append_def ordered_def inputs_held_def)

lemma Accept_ordered:
  assumes "ordered tp"
  shows "ordered (snd (Accept rules tx tp))"
proof (cases "validate rules tx tp")
  case None
  with assms have "ordered (insert_tail tx tp)"
    by (simp add: ordered_def insert_tail_inputs_held insert_tail_dependency_order)
  with None show ?thesis by (simp add: Accept_def Let_def Append_ordered)
next
  case (Some e)
  with assms show ?thesis by (simp add: Accept_def)
qed

lemma OnLedgerChange_ordered: "ordered (OnLedgerChange rules rb ab tp)"
  by (simp add: OnLedgerChange_def Let_def Append_ordered readd_all_ordered empty_ordered
      rebase_list revert_unconfirmed_list)

lemma reachable_ordered: "reachable rules tp \<Longrightarrow> ordered tp"
proof (induction rule: reachable.induct)
  case (reachable_New cs g)
  show ?case by (simp add: empty_ordered new_pool_def)
next
  case (reachable_Accept tp tx)
  from reachable_Accept.IH show ?case by (rule Accept_ordered)
next
  case (reachable_OnLedgerChange tp revertedBlocks appliedBlocks)
  show ?case by (rule OnLedgerChange_ordered)
qed

text \<open>
  C2. In every state a pool reaches from the empty pool by \<open>Accept\<close> and resync
  operations, whenever the transaction at position \<open>j\<close> of the unconfirmed sequence
  consumes an output created by the transaction at position \<open>i\<close>, then \<open>i < j\<close>: the
  creator stands strictly before the consumer. This holds for every choice of the rules
  the spec leaves open.
\<close>

theorem dependency_order_invariant:
  assumes "reachable rules tp"
    and "i < length (transactionList tp)" and "j < length (transactionList tp)"
    and "consumes_output_of (transactionList tp ! j) (transactionList tp ! i)"
  shows "i < j"
  using reachable_ordered [OF assms(1)] assms(2-4)
  by (auto simp: ordered_def intro: dependency_order_nth)

text \<open>
  The run of the scenario: a block brings output 1, \<open>tx_1\<close> spends it and creates
  output 2, \<open>tx_2\<close> spends output 2. The sequence is \<open>[tx_1, tx_2]\<close>, the consumer
  at position 1 and the creator at position 0.
\<close>

theorem dependency_order_invariant_witness:
  "reachable any_rules example_pool \<and>
   transactionList example_pool = [tx_1, tx_2] \<and>
   consumes_output_of (transactionList example_pool ! 1) (transactionList example_pool ! 0) \<and>
   (0::nat) < 1"
proof -
  have r: "reachable any_rules example_pool"
    unfolding example_pool_def by (intro reachable.intros)
  have l: "transactionList example_pool = [tx_1, tx_2]"
    by code_simp
  have c: "consumes_output_of (transactionList example_pool ! 1) (transactionList example_pool ! 0)"
    unfolding l by code_simp
  have i: "0 < length (transactionList example_pool)"
    and j: "1 < length (transactionList example_pool)"
    unfolding l by simp_all
  from dependency_order_invariant [OF r i j c] r l c show ?thesis by blast
qed

end
